theory Spec2Isabelle
  imports Complex_Main
begin

section \<open>Data model\<close>

text \<open>
  A camera frame is an array of shape H x W x 3, indexed \<open>img[row][col][channel]\<close>.
  It is modelled as a list of rows, each row a list of pixels, each pixel its three
  channel values. A single-channel array (a binary mask) is a list of rows of values.
  Channel values are natural numbers (8-bit image data in practice; the code only
  compares them with thresholds and multiplies mask values 0/1 by 255).
\<close>

type_synonym pixel = "nat \<times> nat \<times> nat"
type_synonym image = "pixel list list"
type_synonym plane = "nat list list"

definition shape0 :: "'a list list \<Rightarrow> nat" where
  "shape0 a = length a"

definition shape1 :: "'a list list \<Rightarrow> nat" where
  "shape1 a = (case a of [] \<Rightarrow> 0 | r # _ \<Rightarrow> length r)"

section \<open>Colour classifiers\<close>

text \<open>\<open>color_thresh(img, rgb_thresh=(160, 160, 160))\<close>: an array of zeros, set to 1
  where all three channels are above their thresholds.\<close>

definition default_rgb_thresh :: "nat \<times> nat \<times> nat" where
  "default_rgb_thresh = (160, 160, 160)"

definition color_thresh :: "image \<Rightarrow> nat \<times> nat \<times> nat \<Rightarrow> plane" where
  "color_thresh img rgb_thresh =
     map (map (\<lambda>(r, g, b).
       if r > fst rgb_thresh \<and> g > fst (snd rgb_thresh) \<and> b > snd (snd rgb_thresh)
       then 1 else 0)) img"

text \<open>\<open>obstacle_thresh(img, rgb_thresh=(160, 160, 160))\<close>: the same with all three
  channels below their thresholds.\<close>

definition obstacle_thresh :: "image \<Rightarrow> nat \<times> nat \<times> nat \<Rightarrow> plane" where
  "obstacle_thresh img rgb_thresh =
     map (map (\<lambda>(r, g, b).
       if r < fst rgb_thresh \<and> g < fst (snd rgb_thresh) \<and> b < snd (snd rgb_thresh)
       then 1 else 0)) img"

text \<open>\<open>rock_thresh(img)\<close>: fixed bands, exclusive at both ends.\<close>

definition rock_thresh :: "image \<Rightarrow> plane" where
  "rock_thresh img =
     (let threshold_low = (100::nat, 100::nat, 20::nat);
          threshold_high = (255::nat, 255::nat, 30::nat)
      in map (map (\<lambda>(r, g, b).
           if (r > fst threshold_low \<and> r < fst threshold_high)
              \<and> (g > fst (snd threshold_low) \<and> g < fst (snd threshold_high))
              \<and> (b > snd (snd threshold_low) \<and> b < snd (snd threshold_high))
           then 1 else 0)) img)"

section \<open>Frame converter\<close>

text \<open>
  \<open>binary_img.nonzero()\<close>: the row indices and the column indices of the non-zero
  entries, in row-major order.
\<close>

definition nonzero :: "plane \<Rightarrow> nat list \<times> nat list" where
  "nonzero a =
     (let idx = [(r, c). r \<leftarrow> [0..<length a], c \<leftarrow> [0..<length (a ! r)], a ! r ! c \<noteq> 0]
      in (map fst idx, map snd idx))"

text \<open>
  \<open>rover_coords(binary_img)\<close>. Floating-point numbers are idealised as reals.
  \<open>ypos - shape[0]\<close> is integer arithmetic (it is negative), converted to float and
  negated; \<open>shape[1]/2\<close> is the true division of Python 3.
\<close>

definition rover_coords :: "plane \<Rightarrow> real list \<times> real list" where
  "rover_coords binary_img =
     (let (ypos, xpos) = nonzero binary_img;
          x_pixel = map (\<lambda>y. - real_of_int (int y - int (shape0 binary_img))) ypos;
          y_pixel = map (\<lambda>x. - (real x - real (shape1 binary_img) / 2)) xpos
      in (x_pixel, y_pixel))"

section \<open>Polar coordinates\<close>

text \<open>
  The library function \<open>arctan2(y, x)\<close>: the angle of the point \<open>(x, y)\<close>, by
  quadrant, with \<open>arctan2(0, 0) = 0\<close>.
\<close>

definition arctan2 :: "real \<Rightarrow> real \<Rightarrow> real" where
  "arctan2 y x =
     (if 0 < x then arctan (y / x)
      else if x < 0 then (if 0 \<le> y then arctan (y / x) + pi else arctan (y / x) - pi)
      else if 0 < y then pi / 2
      else if y < 0 then - (pi / 2)
      else 0)"

text \<open>\<open>to_polar_coords(x_pixel, y_pixel)\<close>, elementwise on two arrays of one length.\<close>

definition to_polar_coords :: "real list \<Rightarrow> real list \<Rightarrow> real list \<times> real list" where
  "to_polar_coords x_pixel y_pixel =
     (let dist = map2 (\<lambda>x y. sqrt (x\<^sup>2 + y\<^sup>2)) x_pixel y_pixel;
          angles = map2 (\<lambda>x y. arctan2 y x) x_pixel y_pixel
      in (dist, angles))"

section \<open>World projector\<close>

definition rotate_pix :: "real list \<Rightarrow> real list \<Rightarrow> real \<Rightarrow> real list \<times> real list" where
  "rotate_pix xpix ypix yaw =
     (let yaw_rad = yaw * pi / 180;
          xpix_rotated = map2 (\<lambda>x y. (x * cos yaw_rad) - (y * sin yaw_rad)) xpix ypix;
          ypix_rotated = map2 (\<lambda>x y. (x * sin yaw_rad) + (y * cos yaw_rad)) xpix ypix
      in (xpix_rotated, ypix_rotated))"

text \<open>The division is the program's only where \<open>scale\<close> is not zero.\<close>

definition translate_pix ::
  "real list \<Rightarrow> real list \<Rightarrow> real \<Rightarrow> real \<Rightarrow> real \<Rightarrow> real list \<times> real list" where
  "translate_pix xpix_rot ypix_rot xpos ypos scale =
     (let xpix_translated = map (\<lambda>x. (x / scale) + xpos) xpix_rot;
          ypix_translated = map (\<lambda>y. (y / scale) + ypos) ypix_rot
      in (xpix_translated, ypix_translated))"

text \<open>
  \<open>np.int_\<close> of a float: the conversion to a signed 64-bit integer. A value whose
  integer part fits 64 bits loses its fraction (truncation toward zero). For any other
  value the language leaves the conversion open; the model takes what the conversion
  instruction of x86-64 returns, the smallest 64-bit integer.
\<close>

definition np_int :: "real \<Rightarrow> int" where
  "np_int v =
     (let t = (if 0 \<le> v then \<lfloor>v\<rfloor> else \<lceil>v\<rceil>)
      in if - (2 ^ 63) \<le> t \<and> t < 2 ^ 63 then t else - (2 ^ 63))"

text \<open>\<open>np.clip(a, a_min, a_max)\<close> is \<open>minimum(a_max, maximum(a, a_min))\<close>.\<close>

definition np_clip :: "int \<Rightarrow> int \<Rightarrow> int \<Rightarrow> int" where
  "np_clip v a_min a_max = min a_max (max v a_min)"

definition pix_to_world ::
  "real list \<Rightarrow> real list \<Rightarrow> real \<Rightarrow> real \<Rightarrow> real \<Rightarrow> int \<Rightarrow> real \<Rightarrow> int list \<times> int list" where
  "pix_to_world xpix ypix xpos ypos yaw world_size scale =
     (let (xpix_rot, ypix_rot) = rotate_pix xpix ypix yaw;
          (xpix_tran, ypix_tran) = translate_pix xpix_rot ypix_rot xpos ypos scale;
          x_pix_world = map (\<lambda>v. np_clip (np_int v) 0 (world_size - 1)) xpix_tran;
          y_pix_world = map (\<lambda>v. np_clip (np_int v) 0 (world_size - 1)) ypix_tran
      in (x_pix_world, y_pix_world))"

text \<open>
  The same projection as the specification words it, with rounding to the nearest
  integer in place of the conversion; only to be compared with \<open>pix_to_world\<close>.
\<close>

definition pix_to_world_rounding ::
  "real list \<Rightarrow> real list \<Rightarrow> real \<Rightarrow> real \<Rightarrow> real \<Rightarrow> int \<Rightarrow> real \<Rightarrow> int list \<times> int list" where
  "pix_to_world_rounding xpix ypix xpos ypos yaw world_size scale =
     (let (xpix_rot, ypix_rot) = rotate_pix xpix ypix yaw;
          (xpix_tran, ypix_tran) = translate_pix xpix_rot ypix_rot xpos ypos scale
      in (map (\<lambda>v. np_clip (round v) 0 (world_size - 1)) xpix_tran,
          map (\<lambda>v. np_clip (round v) 0 (world_size - 1)) ypix_tran))"

section \<open>Perspective rectifier\<close>

text \<open>
  The two functions of the image library that \<open>perspect_transform\<close> calls are
  parameters: the matrix of a perspective transform from four source and four
  destination points, and the warp of an array by a matrix to a given size, once for
  three-channel images and once for single-channel arrays.
\<close>

type_synonym quad = "(real \<times> real) list"

record 'm cv2 =
  getPerspectiveTransform :: "quad \<Rightarrow> quad \<Rightarrow> 'm"
  warpPerspective :: "image \<Rightarrow> 'm \<Rightarrow> nat \<times> nat \<Rightarrow> image"
  warpPerspective1 :: "plane \<Rightarrow> 'm \<Rightarrow> nat \<times> nat \<Rightarrow> plane"

definition perspect_transform :: "'m cv2 \<Rightarrow> image \<Rightarrow> quad \<Rightarrow> quad \<Rightarrow> image \<times> plane" where
  "perspect_transform cv im src dst =
     (let M = getPerspectiveTransform cv src dst;
          warped = warpPerspective cv im M (shape1 im, shape0 im);
          mask = warpPerspective1 cv (map (map (\<lambda>_. 1)) im) M (shape1 im, shape0 im)
      in (warped, mask))"

section \<open>Rover state and world map\<close>

text \<open>
  Modelled from the spec: the class of the rover state and the allocation of its arrays
  are not in this file. The world map is a \<open>world_size x world_size x 3\<close> accumulator,
  indexed \<open>worldmap[y][x][channel]\<close>; its cells are unbounded numbers. It is a size and
  a function from indices to cell values, read only at indices within the shape.
  The vision image has the shape of the camera frame.
\<close>

record worldmap_t =
  wsize :: nat
  cells :: "nat \<times> nat \<times> nat \<Rightarrow> int"

record Rover =
  img :: image
  pos :: "real \<times> real"
  yaw :: real
  roll :: real
  pitch :: real
  worldmap :: worldmap_t
  vision_image :: image
  nav_dists :: "real list"
  nav_angles :: "real list"
  rocks_dists :: "real list"
  rocks_angles :: "real list"

datatype error = IndexError

text \<open>
  An index \<open>i\<close> into an axis of size \<open>n\<close>: valid from \<open>-n\<close> to \<open>n - 1\<close>, a negative
  one counting from the end; anything else raises.
\<close>

definition index_ok :: "nat \<Rightarrow> int \<Rightarrow> bool" where
  "index_ok n i = (- int n \<le> i \<and> i < int n)"

definition wrap_index :: "nat \<Rightarrow> int \<Rightarrow> nat" where
  "wrap_index n i = nat (if i < 0 then i + int n else i)"

text \<open>
  \<open>worldmap[ys, xs, c] += w\<close> with two index arrays: the cells at the index pairs are
  read, \<open>w\<close> is added to the values read, and the sums are stored at the same index
  pairs, in order.
\<close>

definition iadd_at ::
  "worldmap_t \<Rightarrow> int list \<Rightarrow> int list \<Rightarrow> nat \<Rightarrow> int \<Rightarrow> error + worldmap_t" where
  "iadd_at wm ys xs c w =
     (if list_all (index_ok (wsize wm)) ys \<and> list_all (index_ok (wsize wm)) xs then
        (let idx = map2 (\<lambda>y x. (wrap_index (wsize wm) y, wrap_index (wsize wm) x, c)) ys xs;
             vals = map (\<lambda>k. cells wm k + w) idx
         in Inr (wm\<lparr>cells := fold (\<lambda>(k, v) f. f(k := v)) (zip idx vals) (cells wm)\<rparr>))
      else Inl IndexError)"

section \<open>The perception step\<close>

text \<open>
  \<open>perception_step(Rover)\<close>. The result is the updated rover state, or the exception
  raised on the way.
\<close>

definition perception_step :: "'m cv2 \<Rightarrow> Rover \<Rightarrow> error + Rover" where
  "perception_step cv R =
     (let dst_size = 5;
          bottom_offset = 6;
          src = [(14, 140), (301, 140), (200, 96), (118, 96)];
          h = real (shape0 (img R));
          w = real (shape1 (img R));
          dst = [(w / 2 - dst_size, h - bottom_offset),
                 (w / 2 + dst_size, h - bottom_offset),
                 (w / 2 + dst_size, h - 2 * dst_size - bottom_offset),
                 (w / 2 - dst_size, h - 2 * dst_size - bottom_offset)];
          (warped, mask) = perspect_transform cv (img R) src dst;
          thresh_terrain = color_thresh warped default_rgb_thresh;
          thresh_obstacle = obstacle_thresh warped default_rgb_thresh;
          thresh_rocks = rock_thresh warped;
          vision = map2 (\<lambda>ro (rr, rt). map2 (\<lambda>ob (rk, te). (ob * 255, rk * 255, te * 255))
                     ro (zip rr rt)) thresh_obstacle (zip thresh_rocks thresh_terrain);
          (xpix, ypix) = rover_coords thresh_terrain;
          (xpix_obstacle, ypix_obstacle) = rover_coords thresh_obstacle;
          (xpix_rocks, ypix_rocks) = rover_coords thresh_rocks;
          world_size = int (wsize (worldmap R));
          scale = 30;
          (x_world, y_world) =
             pix_to_world xpix ypix (fst (pos R)) (snd (pos R)) (yaw R) world_size scale;
          (x_obstacle_world, y_obstacle_world) =
             pix_to_world xpix_obstacle ypix_obstacle (fst (pos R)) (snd (pos R)) (yaw R)
               world_size scale;
          (x_rocks_world, y_rocks_world) =
             pix_to_world xpix_rocks ypix_rocks (fst (pos R)) (snd (pos R)) (yaw R)
               world_size scale;
          updated =
            (if roll R < 2.0 \<or> roll R > 358 then
               (if pitch R < 2.0 \<or> pitch R > 358 then
                  (case iadd_at (worldmap R) y_obstacle_world x_obstacle_world 0 255 of
                     Inl e \<Rightarrow> Inl e
                   | Inr wm1 \<Rightarrow>
                      (case iadd_at wm1 y_rocks_world x_rocks_world 1 255 of
                         Inl e \<Rightarrow> Inl e
                       | Inr wm2 \<Rightarrow> iadd_at wm2 y_world x_world 2 255))
                else Inr (worldmap R))
             else Inr (worldmap R))
      in case updated of
           Inl e \<Rightarrow> Inl e
         | Inr wm \<Rightarrow>
            (let (distance, angles) = to_polar_coords xpix ypix;
                 (distance_rocks, angles_rocks) = to_polar_coords xpix_rocks ypix_rocks
             in Inr (R\<lparr>vision_image := vision, worldmap := wm,
                       nav_dists := distance, nav_angles := angles,
                       rocks_dists := distance_rocks, rocks_angles := angles_rocks\<rparr>)))"

section \<open>Names for what one call computes\<close>

text \<open>The intermediate values of \<open>perception_step\<close> that the theorems speak about.\<close>

definition warped_frame :: "'m cv2 \<Rightarrow> Rover \<Rightarrow> image" where
  "warped_frame cv R =
     warpPerspective cv (img R)
       (getPerspectiveTransform cv [(14, 140), (301, 140), (200, 96), (118, 96)]
          [(real (shape1 (img R)) / 2 - 5, real (shape0 (img R)) - 6),
           (real (shape1 (img R)) / 2 + 5, real (shape0 (img R)) - 6),
           (real (shape1 (img R)) / 2 + 5, real (shape0 (img R)) - 2 * 5 - 6),
           (real (shape1 (img R)) / 2 - 5, real (shape0 (img R)) - 2 * 5 - 6)])
       (shape1 (img R), shape0 (img R))"

definition terrain_mask :: "'m cv2 \<Rightarrow> Rover \<Rightarrow> plane" where
  "terrain_mask cv R = color_thresh (warped_frame cv R) default_rgb_thresh"

definition obstacle_mask :: "'m cv2 \<Rightarrow> Rover \<Rightarrow> plane" where
  "obstacle_mask cv R = obstacle_thresh (warped_frame cv R) default_rgb_thresh"

definition rock_mask :: "'m cv2 \<Rightarrow> Rover \<Rightarrow> plane" where
  "rock_mask cv R = rock_thresh (warped_frame cv R)"

definition overlay :: "'m cv2 \<Rightarrow> Rover \<Rightarrow> image" where
  "overlay cv R =
     map2 (\<lambda>ro (rr, rt). map2 (\<lambda>ob (rk, te). (ob * 255, rk * 255, te * 255)) ro (zip rr rt))
       (obstacle_mask cv R) (zip (rock_mask cv R) (terrain_mask cv R))"

text \<open>The world coordinates of a mask's active pixels at the rover's pose: the pair of
  the x and the y coordinates, and the list of index pairs \<open>(y, x)\<close>, as the world map
  is indexed.\<close>

definition world_xy :: "Rover \<Rightarrow> plane \<Rightarrow> int list \<times> int list" where
  "world_xy R m =
     pix_to_world (fst (rover_coords m)) (snd (rover_coords m))
       (fst (pos R)) (snd (pos R)) (yaw R) (int (wsize (worldmap R))) 30"

definition world_points :: "Rover \<Rightarrow> plane \<Rightarrow> (int \<times> int) list" where
  "world_points R m = zip (snd (world_xy R m)) (fst (world_xy R m))"

text \<open>The polar cues of a mask's active pixels.\<close>

definition polar_cues :: "plane \<Rightarrow> real list \<times> real list" where
  "polar_cues m = to_polar_coords (fst (rover_coords m)) (snd (rover_coords m))"

text \<open>The three accumulation statements of \<open>perception_step\<close>, in their order.\<close>

definition accumulate :: "'m cv2 \<Rightarrow> Rover \<Rightarrow> error + worldmap_t" where
  "accumulate cv R =
     (case iadd_at (worldmap R) (snd (world_xy R (obstacle_mask cv R)))
             (fst (world_xy R (obstacle_mask cv R))) 0 255 of
        Inl e \<Rightarrow> Inl e
      | Inr wm1 \<Rightarrow>
         (case iadd_at wm1 (snd (world_xy R (rock_mask cv R)))
                 (fst (world_xy R (rock_mask cv R))) 1 255 of
            Inl e \<Rightarrow> Inl e
          | Inr wm2 \<Rightarrow> iadd_at wm2 (snd (world_xy R (terrain_mask cv R)))
                         (fst (world_xy R (terrain_mask cv R))) 2 255))"

text \<open>The stability gate as the specification words it.\<close>

definition stability_gate :: "Rover \<Rightarrow> bool" where
  "stability_gate R = ((roll R < 2 \<or> roll R > 358) \<and> (pitch R < 2 \<or> pitch R > 358))"

text \<open>A test double for the image library: the warp that returns its input.\<close>

definition cv_id :: "unit cv2" where
  "cv_id = \<lparr>getPerspectiveTransform = (\<lambda>_ _. ()),
            warpPerspective = (\<lambda>a _ _. a),
            warpPerspective1 = (\<lambda>a _ _. a)\<rparr>"

section \<open>Successive frames\<close>

text \<open>
  Modelled from the spec: the caller's loop is not in this file. Before each call the
  telemetry layer stores the new camera frame and pose in the rover state; the world
  map persists from call to call. An exception ends the run.
\<close>

record frame =
  f_img :: image
  f_pos :: "real \<times> real"
  f_yaw :: real
  f_roll :: real
  f_pitch :: real

definition receive :: "frame \<Rightarrow> Rover \<Rightarrow> Rover" where
  "receive f R = R\<lparr>img := f_img f, pos := f_pos f, yaw := f_yaw f,
                    roll := f_roll f, pitch := f_pitch f\<rparr>"

fun run :: "'m cv2 \<Rightarrow> Rover \<Rightarrow> frame list \<Rightarrow> error + Rover" where
  "run cv R [] = Inr R"
| "run cv R (f # fs) =
     (case perception_step cv (receive f R) of
        Inl e \<Rightarrow> Inl e
      | Inr R' \<Rightarrow> run cv R' fs)"

section \<open>Test data\<close>

text \<open>A level rover at the origin of an empty 200 x 200 map, heading along x, with a
  frame of one row of two bright pixels.\<close>

definition empty_map :: worldmap_t where
  "empty_map = \<lparr>wsize = 200, cells = (\<lambda>_. 0)\<rparr>"

definition test_rover :: Rover where
  "test_rover = \<lparr>img = [[(255, 255, 255), (255, 255, 255)]], pos = (0, 0), yaw = 0,
                  roll = 1, pitch = 1, worldmap = empty_map,
                  vision_image = [[(0, 0, 0), (0, 0, 0)]],
                  nav_dists = [], nav_angles = [], rocks_dists = [], rocks_angles = []\<rparr>"

text \<open>The same rover with a frame of one bright pixel, and tilted.\<close>

definition one_pixel_rover :: Rover where
  "one_pixel_rover = test_rover\<lparr>img := [[(255, 255, 255), (0, 0, 0)]]\<rparr>"

definition tilted_rover :: Rover where
  "tilted_rover = test_rover\<lparr>roll := 10\<rparr>"

text \<open>The telemetry of that rover, as a frame to receive.\<close>

definition test_frame :: frame where
  "test_frame = \<lparr>f_img = [[(255, 255, 255), (255, 255, 255)]], f_pos = (0, 0), f_yaw = 0,
                  f_roll = 1, f_pitch = 1\<rparr>"

section \<open>Theorems\<close>

lemma color_thresh_nth:
  "r < length im \<Longrightarrow> c < length (im ! r) \<Longrightarrow>
   color_thresh im t ! r ! c =
     (case im ! r ! c of (R, G, B) \<Rightarrow>
        if R > fst t \<and> G > fst (snd t) \<and> B > snd (snd t) then 1 else 0)"
  by (simp add: color_thresh_def)

lemma obstacle_thresh_nth:
  "r < length im \<Longrightarrow> c < length (im ! r) \<Longrightarrow>
   obstacle_thresh im t ! r ! c =
     (case im ! r ! c of (R, G, B) \<Rightarrow>
        if R < fst t \<and> G < fst (snd t) \<and> B < snd (snd t) then 1 else 0)"
  by (simp add: obstacle_thresh_def)

subsection \<open>Arrays and index arrays\<close>

lemma fold_upd:
  "fold (\<lambda>(k, v) f. f(k := v)) (zip ks (map h ks)) f0 = (\<lambda>k. if k \<in> set ks then h k else f0 k)"
  by (induction ks arbitrary: f0) (auto simp: fun_eq_iff)

lemma iadd_at_cells:
  assumes "list_all (index_ok (wsize wm)) ys" and "list_all (index_ok (wsize wm)) xs"
  shows "iadd_at wm ys xs c w =
           Inr (wm\<lparr>cells := (\<lambda>k. if k \<in> set (map2 (\<lambda>y x. (wrap_index (wsize wm) y, wrap_index (wsize wm) x, c)) ys xs)
                                 then cells wm k + w else cells wm k)\<rparr>)"
  using assms unfolding iadd_at_def Let_def by (simp only: fold_upd if_True simp_thms)

lemma iadd_at_error:
  "\<not> (list_all (index_ok (wsize wm)) ys \<and> list_all (index_ok (wsize wm)) xs) \<Longrightarrow>
   iadd_at wm ys xs c w = Inl IndexError"
  by (simp add: iadd_at_def)

lemma length_nonzero: "length (fst (nonzero a)) = length (snd (nonzero a))"
  by (simp add: nonzero_def Let_def)

lemma set_nonzero:
  "set (zip (fst (nonzero a)) (snd (nonzero a))) =
     {(r, c). r < length a \<and> c < length (a ! r) \<and> a ! r ! c \<noteq> 0}"
proof -
  have "zip (map fst xs) (map snd xs) = xs" for xs :: "(nat \<times> nat) list"
    by (induction xs) auto
  then show ?thesis by (auto simp: nonzero_def Let_def)
qed

lemma nonzero_rows: "y \<in> set (fst (nonzero a)) \<Longrightarrow> y < length a"
  by (auto simp: nonzero_def Let_def)

lemma length_rover_coords: "length (fst (rover_coords m)) = length (snd (rover_coords m))"
  using length_nonzero [of m] by (simp add: rover_coords_def Let_def case_prod_beta)

lemma rover_coords_x:
  "x \<in> set (fst (rover_coords m)) \<Longrightarrow> \<exists>r < length m. x = real (length m - r)"
  by (auto simp: rover_coords_def Let_def case_prod_beta shape0_def dest!: nonzero_rows)

lemma length_pix_to_world:
  "length (fst (pix_to_world xs ys px py ang ws sc)) = min (length xs) (length ys)"
  "length (snd (pix_to_world xs ys px py ang ws sc)) = min (length xs) (length ys)"
  by (simp_all add: pix_to_world_def rotate_pix_def translate_pix_def Let_def)

lemma np_clip_range: "0 < ws \<Longrightarrow> 0 \<le> np_clip v 0 (ws - 1) \<and> np_clip v 0 (ws - 1) < ws"
  by (auto simp: np_clip_def)

lemma pix_to_world_range:
  assumes "0 < ws"
  shows "list_all (\<lambda>i. 0 \<le> i \<and> i < ws) (fst (pix_to_world xs ys px py ang ws sc))"
    and "list_all (\<lambda>i. 0 \<le> i \<and> i < ws) (snd (pix_to_world xs ys px py ang ws sc))"
  using assms
  by (simp_all add: pix_to_world_def rotate_pix_def translate_pix_def Let_def list_all_iff np_clip_range)


subsection \<open>The conversion to integers\<close>

lemma np_int_in_range:
  assumes "\<bar>v\<bar> < 2 ^ 63"
  shows "np_int v = (if 0 \<le> v then \<lfloor>v\<rfloor> else \<lceil>v\<rceil>)"
proof (cases "0 \<le> v")
  case True
  with assms have "v < real_of_int (2 ^ 63)" by simp
  then have "\<lfloor>v\<rfloor> < 2 ^ 63" by (simp only: floor_less_iff)
  moreover from True have "0 \<le> \<lfloor>v\<rfloor>" by simp
  ultimately show ?thesis using True by (simp add: np_int_def)
next
  case False
  with assms have "real_of_int (- (2 ^ 63)) - 1 < v" by simp
  then have "- (2 ^ 63) \<le> \<lceil>v\<rceil>" by (simp only: le_ceiling_iff)
  moreover from False have "\<lceil>v\<rceil> \<le> 0" by (simp add: ceiling_le_iff)
  ultimately show ?thesis using False by (simp add: np_int_def)
qed

lemma np_int_trunc:
  assumes "\<bar>v\<bar> < 2 ^ 63"
  shows "\<bar>real_of_int (np_int v)\<bar> \<le> \<bar>v\<bar> \<and> \<bar>v - real_of_int (np_int v)\<bar> < 1"
  unfolding np_int_in_range [OF assms] by (cases "0 \<le> v"; simp; linarith)

lemma np_int_of_int:
  assumes "- (2 ^ 63) < k" and "k < 2 ^ 63"
  shows "np_int (real_of_int k) = k"
proof -
  have "\<bar>real_of_int k\<bar> < real_of_int (2 ^ 63)"
    using assms by (simp only: of_int_abs [symmetric] of_int_less_iff)
  then have "\<bar>real_of_int k\<bar> < 2 ^ 63" by simp
  then show ?thesis by (simp add: np_int_in_range)
qed

lemma clip_nearest_edge:
  assumes "\<bar>v\<bar> < 2 ^ 63" and "0 < ws"
  shows "np_clip (np_int v) 0 (ws - 1) =
           (if v < 0 then 0 else if real_of_int ws \<le> v then ws - 1 else \<lfloor>v\<rfloor>)"
proof -
  consider (low) "v < 0" | (high) "0 \<le> v" "real_of_int ws \<le> v" | (mid) "0 \<le> v" "v < real_of_int ws"
    by linarith
  then show ?thesis
  proof cases
    case low
    then have "\<lceil>v\<rceil> \<le> 0" by (simp add: ceiling_le_iff)
    with low assms show ?thesis by (simp add: np_int_in_range np_clip_def)
  next
    case high
    then have "ws \<le> \<lfloor>v\<rfloor>" by (simp add: le_floor_iff)
    with high assms show ?thesis by (simp add: np_int_in_range np_clip_def)
  next
    case mid
    then have "\<lfloor>v\<rfloor> < ws" "0 \<le> \<lfloor>v\<rfloor>" by (simp_all add: floor_less_iff)
    with mid assms show ?thesis by (simp add: np_int_in_range np_clip_def)
  qed
qed

subsection \<open>The structure of one call\<close>

lemma perception_step_unfold:
  "perception_step cv R =
     (case (if stability_gate R then accumulate cv R else Inr (worldmap R)) of
        Inl e \<Rightarrow> Inl e
      | Inr wm \<Rightarrow>
          Inr (R\<lparr>vision_image := overlay cv R, worldmap := wm,
                 nav_dists := fst (polar_cues (terrain_mask cv R)),
                 nav_angles := snd (polar_cues (terrain_mask cv R)),
                 rocks_dists := fst (polar_cues (rock_mask cv R)),
                 rocks_angles := snd (polar_cues (rock_mask cv R))\<rparr>))"
  by (simp add: perception_step_def Let_def case_prod_beta perspect_transform_def
        stability_gate_def accumulate_def overlay_def world_xy_def polar_cues_def
        terrain_mask_def obstacle_mask_def rock_mask_def warped_frame_def
        split: sum.splits)

lemma world_xy_range:
  assumes "0 < wsize (worldmap R)"
  shows "list_all (\<lambda>i. 0 \<le> i \<and> i < int (wsize (worldmap R))) (fst (world_xy R m))"
    and "list_all (\<lambda>i. 0 \<le> i \<and> i < int (wsize (worldmap R))) (snd (world_xy R m))"
  using assms by (simp_all add: world_xy_def pix_to_world_range)

lemma index_set:
  assumes "list_all (\<lambda>i. 0 \<le> i \<and> i < int n) ys" and "list_all (\<lambda>i. 0 \<le> i \<and> i < int n) xs"
  shows "(y, x, c') \<in> set (map2 (\<lambda>y x. (wrap_index n y, wrap_index n x, c)) ys xs)
           \<longleftrightarrow> c' = c \<and> (int y, int x) \<in> set (zip ys xs)"
proof
  assume "(y, x, c') \<in> set (map2 (\<lambda>y x. (wrap_index n y, wrap_index n x, c)) ys xs)"
  then obtain a b where ab: "(a, b) \<in> set (zip ys xs)"
    and eq: "y = wrap_index n a" "x = wrap_index n b" "c' = c"
    by auto
  from ab have "a \<in> set ys" "b \<in> set xs"
    by (auto dest: set_zip_leftD set_zip_rightD)
  with assms have "0 \<le> a" "0 \<le> b" by (auto simp: list_all_iff)
  with eq have "int y = a" "int x = b" by (simp_all add: wrap_index_def)
  with ab eq show "c' = c \<and> (int y, int x) \<in> set (zip ys xs)" by simp
next
  assume h: "c' = c \<and> (int y, int x) \<in> set (zip ys xs)"
  have "wrap_index n (int y) = y" "wrap_index n (int x) = x"
    by (simp_all add: wrap_index_def)
  with h show "(y, x, c') \<in> set (map2 (\<lambda>y x. (wrap_index n y, wrap_index n x, c)) ys xs)"
    by force
qed

lemma iadd_at_points:
  assumes "list_all (\<lambda>i. 0 \<le> i \<and> i < int (wsize wm)) ys"
      and "list_all (\<lambda>i. 0 \<le> i \<and> i < int (wsize wm)) xs"
  shows "iadd_at wm ys xs c w =
           Inr (wm\<lparr>cells := (\<lambda>(y, x, c'). if c' = c \<and> (int y, int x) \<in> set (zip ys xs)
                                 then cells wm (y, x, c') + w else cells wm (y, x, c'))\<rparr>)"
proof -
  have ok: "list_all (index_ok (wsize wm)) ys" "list_all (index_ok (wsize wm)) xs"
    using assms by (auto simp: list_all_iff index_ok_def)
  have "(\<lambda>k. if k \<in> set (map2 (\<lambda>y x. (wrap_index (wsize wm) y, wrap_index (wsize wm) x, c)) ys xs)
              then cells wm k + w else cells wm k) =
        (\<lambda>(y, x, c'). if c' = c \<and> (int y, int x) \<in> set (zip ys xs)
                       then cells wm (y, x, c') + w else cells wm (y, x, c'))"
    by (rule ext) (simp only: split_paired_all prod.case index_set [OF assms])
  then show ?thesis
    by (simp only: iadd_at_cells [OF ok])
qed

lemma accumulate_cells:
  assumes "0 < wsize (worldmap R)"
  shows "accumulate cv R =
     Inr ((worldmap R)\<lparr>cells := (\<lambda>(y, x, c).
        cells (worldmap R) (y, x, c) +
          (if c = 0 \<and> (int y, int x) \<in> set (world_points R (obstacle_mask cv R))
              \<or> c = 1 \<and> (int y, int x) \<in> set (world_points R (rock_mask cv R))
              \<or> c = 2 \<and> (int y, int x) \<in> set (world_points R (terrain_mask cv R))
           then 255 else 0))\<rparr>)"
proof -
  let ?n = "wsize (worldmap R)"
  have r: "list_all (\<lambda>i. 0 \<le> i \<and> i < int ?n) (fst (world_xy R m))"
          "list_all (\<lambda>i. 0 \<le> i \<and> i < int ?n) (snd (world_xy R m))" for m
    using world_xy_range [OF assms] by simp_all
  show ?thesis
    unfolding accumulate_def
    by (simp add: iadd_at_points r world_points_def fun_eq_iff)
qed

lemmas eval_defs = world_points_def world_xy_def terrain_mask_def obstacle_mask_def rock_mask_def
  warped_frame_def cv_id_def test_rover_def one_pixel_rover_def tilted_rover_def empty_map_def
  color_thresh_def obstacle_thresh_def rock_thresh_def default_rgb_thresh_def
  rover_coords_def nonzero_def upt_conv_Cons shape0_def shape1_def
  pix_to_world_def rotate_pix_def translate_pix_def np_int_in_range np_clip_def Let_def

subsection \<open>Map accumulation\<close>

text \<open>
  Claim C1, as amended. With the gate open and a world map of positive size, the call
  returns, and a world cell's channel 0, 1 or 2 grows by 255 when at least one world
  point of the obstacle, rock or terrain set falls on the cell, and by 0 otherwise:
  one full weight per cell and frame, however many points of the set fall there.
\<close>

theorem accumulation_once_per_cell:
  assumes "stability_gate R" and "0 < wsize (worldmap R)"
  shows "\<exists>R'. perception_step cv R = Inr R'
           \<and> wsize (worldmap R') = wsize (worldmap R)
           \<and> (\<forall>y x. cells (worldmap R') (y, x, 0) = cells (worldmap R) (y, x, 0) +
                       (if (int y, int x) \<in> set (world_points R (obstacle_mask cv R)) then 255 else 0)
                   \<and> cells (worldmap R') (y, x, 1) = cells (worldmap R) (y, x, 1) +
                       (if (int y, int x) \<in> set (world_points R (rock_mask cv R)) then 255 else 0)
                   \<and> cells (worldmap R') (y, x, 2) = cells (worldmap R) (y, x, 2) +
                       (if (int y, int x) \<in> set (world_points R (terrain_mask cv R)) then 255 else 0))"
  using assms by (simp add: perception_step_unfold accumulate_cells)

theorem accumulation_once_per_cell_witness:
  "stability_gate test_rover \<and> 0 < wsize (worldmap test_rover)
   \<and> world_points test_rover (terrain_mask cv_id test_rover) = [(0, 0), (0, 0)]
   \<and> cells (worldmap test_rover) (0, 0, 2) = 0
   \<and> cells (worldmap (projr (perception_step cv_id test_rover))) (0, 0, 2) = 255"
proof -
  have g: "stability_gate test_rover"
    by (simp add: stability_gate_def test_rover_def)
  have n: "0 < wsize (worldmap test_rover)"
    by (simp add: test_rover_def empty_map_def)
  have p: "world_points test_rover (terrain_mask cv_id test_rover) = [(0, 0), (0, 0)]"
    by (simp add: eval_defs)
  have z: "cells (worldmap test_rover) (0, 0, 2) = 0"
    by (simp add: test_rover_def empty_map_def)
  from accumulation_once_per_cell [OF g n, of cv_id] obtain R' where
    r: "perception_step cv_id test_rover = Inr R'"
    and c: "cells (worldmap R') (0, 0, 2) = cells (worldmap test_rover) (0, 0, 2) +
             (if (int 0, int 0) \<in> set (world_points test_rover (terrain_mask cv_id test_rover)) then 255 else 0)"
    by blast
  from c have "cells (worldmap R') (0, 0, 2) = 255" by (simp add: p z)
  with r g n p z show ?thesis by simp
qed

text \<open>
  The claim as stated fails: two terrain points of one frame fall on the world cell
  \<open>(0, 0)\<close>, and the cell's terrain channel goes from 0 to 255, not to 510. The
  indexed \<open>+=\<close> reads the cells, adds, and stores; a repeated index stores the same
  sum again.
\<close>

theorem per_point_accumulation_counterexample:
  "\<not> isl (perception_step cv_id test_rover)
   \<and> stability_gate test_rover
   \<and> count_list (world_points test_rover (terrain_mask cv_id test_rover)) (0, 0) = 2
   \<and> cells (worldmap test_rover) (0, 0, 2) = 0
   \<and> cells (worldmap (projr (perception_step cv_id test_rover))) (0, 0, 2) = 255
   \<and> cells (worldmap (projr (perception_step cv_id test_rover))) (0, 0, 2) \<noteq>
       cells (worldmap test_rover) (0, 0, 2) +
         255 * int (count_list (world_points test_rover (terrain_mask cv_id test_rover)) (0, 0))"
proof -
  have g: "stability_gate test_rover"
    by (simp add: stability_gate_def test_rover_def)
  have p: "world_points test_rover (terrain_mask cv_id test_rover) = [(0, 0), (0, 0)]"
    by (simp add: eval_defs)
  have z: "cells (worldmap test_rover) (0, 0, 2) = 0"
    by (simp add: test_rover_def empty_map_def)
  have e: "\<not> isl (perception_step cv_id test_rover)
           \<and> cells (worldmap (projr (perception_step cv_id test_rover))) (0, 0, 2) = 255"
    by (simp add: perception_step_def perspect_transform_def iadd_at_def index_ok_def
          wrap_index_def to_polar_coords_def cv_id_def test_rover_def empty_map_def
          color_thresh_def obstacle_thresh_def rock_thresh_def default_rgb_thresh_def
          rover_coords_def nonzero_def upt_conv_Cons shape0_def shape1_def
          pix_to_world_def rotate_pix_def translate_pix_def np_int_in_range np_clip_def Let_def)
  from g p z e show ?thesis by simp
qed

text \<open>
  Claim C3. When roll or pitch is outside the stability gate, the call returns, the
  world map is the one before the call, and the four navigation cues are the polar
  coordinates of the terrain and rock masks of the frame of this call.
\<close>

theorem gate_closed_keeps_map:
  assumes "\<not> stability_gate R"
  shows "\<exists>R'. perception_step cv R = Inr R'
           \<and> worldmap R' = worldmap R
           \<and> nav_dists R' = fst (polar_cues (terrain_mask cv R))
           \<and> nav_angles R' = snd (polar_cues (terrain_mask cv R))
           \<and> rocks_dists R' = fst (polar_cues (rock_mask cv R))
           \<and> rocks_angles R' = snd (polar_cues (rock_mask cv R))"
  using assms by (simp add: perception_step_unfold)

theorem gate_closed_keeps_map_witness:
  "roll tilted_rover = 10 \<and> \<not> stability_gate tilted_rover
   \<and> worldmap (projr (perception_step cv_id tilted_rover)) = worldmap tilted_rover
   \<and> nav_dists tilted_rover = []
   \<and> nav_dists (projr (perception_step cv_id tilted_rover)) = [sqrt 2, 1]
   \<and> nav_angles (projr (perception_step cv_id tilted_rover)) = [pi / 4, 0]"
proof -
  have g: "\<not> stability_gate tilted_rover"
    by (simp add: stability_gate_def tilted_rover_def test_rover_def)
  have c: "polar_cues (terrain_mask cv_id tilted_rover) = ([sqrt 2, 1], [pi / 4, 0])"
    by (simp add: polar_cues_def to_polar_coords_def arctan2_def arctan_one eval_defs)
  from gate_closed_keeps_map [OF g, of cv_id] obtain R' where
    "perception_step cv_id tilted_rover = Inr R'" "worldmap R' = worldmap tilted_rover"
    "nav_dists R' = fst (polar_cues (terrain_mask cv_id tilted_rover))"
    "nav_angles R' = snd (polar_cues (terrain_mask cv_id tilted_rover))"
    by blast
  with g c show ?thesis by (simp add: tilted_rover_def test_rover_def)
qed

lemma single_point:
  assumes "nonzero m = ([r], [c])"
  shows "\<exists>y x. world_points R m = [(y, x)]"
  using assms
  by (simp add: world_points_def world_xy_def rover_coords_def pix_to_world_def rotate_pix_def
        translate_pix_def Let_def)

text \<open>
  Claim C4. For every invocation: when roll and pitch are each below 2 or above 358 and
  the world map has positive size, the call returns and the accumulation is applied
  (each world cell hit by a point set gains 255 in that set's channel); in particular,
  for a terrain mask with exactly one active pixel the terrain channel of the pixel's
  world cell grows by exactly 255, no other cell of that channel changing. When roll
  or pitch is outside that condition, the call returns and the world map is unchanged,
  whatever the frame.
\<close>

theorem gate_decides_accumulation:
  "((roll R < 2 \<or> roll R > 358) \<and> (pitch R < 2 \<or> pitch R > 358) \<and> 0 < wsize (worldmap R) \<longrightarrow>
      (\<exists>R'. perception_step cv R = Inr R'
         \<and> wsize (worldmap R') = wsize (worldmap R)
         \<and> (\<forall>y x. cells (worldmap R') (y, x, 0) = cells (worldmap R) (y, x, 0) +
                     (if (int y, int x) \<in> set (world_points R (obstacle_mask cv R)) then 255 else 0)
                 \<and> cells (worldmap R') (y, x, 1) = cells (worldmap R) (y, x, 1) +
                     (if (int y, int x) \<in> set (world_points R (rock_mask cv R)) then 255 else 0)
                 \<and> cells (worldmap R') (y, x, 2) = cells (worldmap R) (y, x, 2) +
                     (if (int y, int x) \<in> set (world_points R (terrain_mask cv R)) then 255 else 0))))
   \<and> ((roll R < 2 \<or> roll R > 358) \<and> (pitch R < 2 \<or> pitch R > 358) \<and> 0 < wsize (worldmap R)
        \<and> nonzero (terrain_mask cv R) = ([r], [c]) \<longrightarrow>
      (\<exists>R' y x. perception_step cv R = Inr R'
         \<and> world_points R (terrain_mask cv R) = [(int y, int x)]
         \<and> y < wsize (worldmap R) \<and> x < wsize (worldmap R)
         \<and> cells (worldmap R') (y, x, 2) = cells (worldmap R) (y, x, 2) + 255
         \<and> (\<forall>y' x'. (y', x') \<noteq> (y, x) \<longrightarrow>
               cells (worldmap R') (y', x', 2) = cells (worldmap R) (y', x', 2))))
   \<and> (\<not> ((roll R < 2 \<or> roll R > 358) \<and> (pitch R < 2 \<or> pitch R > 358)) \<longrightarrow>
      (\<exists>R'. perception_step cv R = Inr R' \<and> worldmap R' = worldmap R))"
proof (intro conjI impI)
  assume "(roll R < 2 \<or> roll R > 358) \<and> (pitch R < 2 \<or> pitch R > 358) \<and> 0 < wsize (worldmap R)"
  then have g: "stability_gate R" and n: "0 < wsize (worldmap R)"
    by (simp_all add: stability_gate_def)
  then show "\<exists>R'. perception_step cv R = Inr R'
         \<and> wsize (worldmap R') = wsize (worldmap R)
         \<and> (\<forall>y x. cells (worldmap R') (y, x, 0) = cells (worldmap R) (y, x, 0) +
                     (if (int y, int x) \<in> set (world_points R (obstacle_mask cv R)) then 255 else 0)
                 \<and> cells (worldmap R') (y, x, 1) = cells (worldmap R) (y, x, 1) +
                     (if (int y, int x) \<in> set (world_points R (rock_mask cv R)) then 255 else 0)
                 \<and> cells (worldmap R') (y, x, 2) = cells (worldmap R) (y, x, 2) +
                     (if (int y, int x) \<in> set (world_points R (terrain_mask cv R)) then 255 else 0))"
    by (simp add: perception_step_unfold accumulate_cells)
next
  assume "(roll R < 2 \<or> roll R > 358) \<and> (pitch R < 2 \<or> pitch R > 358) \<and> 0 < wsize (worldmap R)
          \<and> nonzero (terrain_mask cv R) = ([r], [c])"
  then have g: "stability_gate R" and n: "0 < wsize (worldmap R)"
    and m: "nonzero (terrain_mask cv R) = ([r], [c])"
    by (simp_all add: stability_gate_def)
  from single_point [OF m] obtain a b where
    p: "world_points R (terrain_mask cv R) = [(a, b)]" by blast
  from p have "(a, b) \<in> set (zip (snd (world_xy R (terrain_mask cv R)))
                                  (fst (world_xy R (terrain_mask cv R))))"
    by (simp add: world_points_def)
  then have "a \<in> set (snd (world_xy R (terrain_mask cv R)))"
    "b \<in> set (fst (world_xy R (terrain_mask cv R)))"
    by (rule set_zip_leftD, rule set_zip_rightD)
  with world_xy_range [OF n, of "terrain_mask cv R"]
  have ab: "0 \<le> a" "a < int (wsize (worldmap R))" "0 \<le> b" "b < int (wsize (worldmap R))"
    by (auto simp: list_all_iff)
  define y x where "y = nat a" and "x = nat b"
  with ab have yx: "int y = a" "int x = b" "y < wsize (worldmap R)" "x < wsize (worldmap R)"
    by simp_all
  show "\<exists>R' y x. perception_step cv R = Inr R'
               \<and> world_points R (terrain_mask cv R) = [(int y, int x)]
               \<and> y < wsize (worldmap R) \<and> x < wsize (worldmap R)
               \<and> cells (worldmap R') (y, x, 2) = cells (worldmap R) (y, x, 2) + 255
               \<and> (\<forall>y' x'. (y', x') \<noteq> (y, x) \<longrightarrow>
                     cells (worldmap R') (y', x', 2) = cells (worldmap R) (y', x', 2))"
    using g n p yx
    by (intro exI [of _ "projr (perception_step cv R)"] exI [of _ y] exI [of _ x])
       (auto simp: perception_step_unfold accumulate_cells)
next
  assume "\<not> ((roll R < 2 \<or> roll R > 358) \<and> (pitch R < 2 \<or> pitch R > 358))"
  then have "\<not> stability_gate R" by (simp add: stability_gate_def)
  then show "\<exists>R'. perception_step cv R = Inr R' \<and> worldmap R' = worldmap R"
    by (simp add: perception_step_unfold)
qed

theorem gate_decides_accumulation_witness:
  "roll one_pixel_rover = 1 \<and> pitch one_pixel_rover = 1
   \<and> 0 < wsize (worldmap one_pixel_rover)
   \<and> nonzero (terrain_mask cv_id one_pixel_rover) = ([0], [0])
   \<and> world_points one_pixel_rover (terrain_mask cv_id one_pixel_rover) = [(0, 0)]
   \<and> world_points one_pixel_rover (obstacle_mask cv_id one_pixel_rover) = [(0, 0)]
   \<and> cells (worldmap (projr (perception_step cv_id one_pixel_rover))) (0, 0, 2) =
       cells (worldmap one_pixel_rover) (0, 0, 2) + 255
   \<and> cells (worldmap (projr (perception_step cv_id one_pixel_rover))) (0, 0, 0) =
       cells (worldmap one_pixel_rover) (0, 0, 0) + 255
   \<and> roll tilted_rover = 10
   \<and> length (fst (nonzero (terrain_mask cv_id tilted_rover))) = 2
   \<and> worldmap (projr (perception_step cv_id tilted_rover)) = worldmap tilted_rover"
proof -
  have m: "nonzero (terrain_mask cv_id one_pixel_rover) = ([0], [0])"
    by (simp add: eval_defs)
  have n: "0 < wsize (worldmap one_pixel_rover)"
    by (simp add: one_pixel_rover_def test_rover_def empty_map_def)
  have g: "roll one_pixel_rover = 1" "pitch one_pixel_rover = 1"
    by (simp_all add: one_pixel_rover_def test_rover_def)
  have t: "roll tilted_rover = 10"
    by (simp add: tilted_rover_def test_rover_def)
  have m2: "length (fst (nonzero (terrain_mask cv_id tilted_rover))) = 2"
    by (simp add: eval_defs)
  have p: "world_points one_pixel_rover (terrain_mask cv_id one_pixel_rover) = [(0, 0)]"
    by (simp add: eval_defs)
  have q: "world_points one_pixel_rover (obstacle_mask cv_id one_pixel_rover) = [(0, 0)]"
    by (simp add: eval_defs)
  note open_thm = gate_decides_accumulation [of one_pixel_rover cv_id 0 0]
  from open_thm g n m obtain R' y x where
    r: "perception_step cv_id one_pixel_rover = Inr R'"
    and w: "world_points one_pixel_rover (terrain_mask cv_id one_pixel_rover) = [(int y, int x)]"
    and c: "cells (worldmap R') (y, x, 2) = cells (worldmap one_pixel_rover) (y, x, 2) + 255"
    by auto
  from p w have "y = 0" "x = 0" by simp_all
  with r c have terrain_case:
    "cells (worldmap (projr (perception_step cv_id one_pixel_rover))) (0, 0, 2) =
       cells (worldmap one_pixel_rover) (0, 0, 2) + 255"
    by simp
  from open_thm g n obtain R1 where
    r1: "perception_step cv_id one_pixel_rover = Inr R1"
    and c1: "cells (worldmap R1) (0, 0, 0) = cells (worldmap one_pixel_rover) (0, 0, 0) +
       (if (int 0, int 0) \<in> set (world_points one_pixel_rover (obstacle_mask cv_id one_pixel_rover))
        then 255 else 0)"
    by auto
  from r1 c1 q have obstacle_case:
    "cells (worldmap (projr (perception_step cv_id one_pixel_rover))) (0, 0, 0) =
       cells (worldmap one_pixel_rover) (0, 0, 0) + 255"
    by simp
  from gate_decides_accumulation [of tilted_rover cv_id 0 0] t obtain R'' where
    "perception_step cv_id tilted_rover = Inr R''" "worldmap R'' = worldmap tilted_rover"
    by auto
  then have closed_case: "worldmap (projr (perception_step cv_id tilted_rover)) = worldmap tilted_rover"
    by simp
  from m n g t m2 p q terrain_case obstacle_case closed_case show ?thesis by simp
qed

lemma iadd_at_mono:
  assumes "iadd_at wm ys xs c w = Inr wm'" and "0 \<le> w"
  shows "wsize wm' = wsize wm \<and> cells wm k \<le> cells wm' k"
proof (cases "list_all (index_ok (wsize wm)) ys \<and> list_all (index_ok (wsize wm)) xs")
  case True
  then show ?thesis
    using assms iadd_at_cells [of wm ys xs c w] by auto
next
  case False
  then show ?thesis using assms iadd_at_error [OF False, of c w] by simp
qed

lemma accumulate_mono:
  assumes "accumulate cv R = Inr wm'"
  shows "wsize wm' = wsize (worldmap R) \<and> cells (worldmap R) k \<le> cells wm' k"
proof -
  from assms obtain wm1 wm2 where
    s1: "iadd_at (worldmap R) (snd (world_xy R (obstacle_mask cv R)))
           (fst (world_xy R (obstacle_mask cv R))) 0 255 = Inr wm1"
    and s2: "iadd_at wm1 (snd (world_xy R (rock_mask cv R)))
           (fst (world_xy R (rock_mask cv R))) 1 255 = Inr wm2"
    and s3: "iadd_at wm2 (snd (world_xy R (terrain_mask cv R)))
           (fst (world_xy R (terrain_mask cv R))) 2 255 = Inr wm'"
    by (auto simp: accumulate_def split: sum.splits)
  from iadd_at_mono [OF s1, of k] iadd_at_mono [OF s2, of k] iadd_at_mono [OF s3, of k]
  show ?thesis by simp
qed

lemma perception_step_mono:
  assumes "perception_step cv R = Inr R'"
  shows "wsize (worldmap R') = wsize (worldmap R) \<and> cells (worldmap R) k \<le> cells (worldmap R') k"
proof (cases "stability_gate R")
  case True
  with assms obtain wm where "accumulate cv R = Inr wm" "worldmap R' = wm"
    by (auto simp: perception_step_unfold split: sum.splits)
  with accumulate_mono [of cv R wm k] show ?thesis by simp
next
  case False
  with assms show ?thesis by (auto simp: perception_step_unfold)
qed

lemma perception_step_returns:
  "0 < wsize (worldmap R) \<Longrightarrow> \<exists>R'. perception_step cv R = Inr R'"
  by (cases "stability_gate R") (simp_all add: perception_step_unfold accumulate_cells)

lemma worldmap_receive: "worldmap (receive f R) = worldmap R"
  by (simp add: receive_def)

text \<open>
  Claim C9. Over any sequence of frames processed on one persistent world map, the run
  returns when the map has positive size, and whenever it returns the map keeps its
  size and no cell of any channel is smaller than before the run.
\<close>

theorem worldmap_monotone:
  "(0 < wsize (worldmap R) \<longrightarrow> (\<exists>R'. run cv R fs = Inr R'))
   \<and> (\<forall>R'. run cv R fs = Inr R' \<longrightarrow>
         wsize (worldmap R') = wsize (worldmap R)
         \<and> (\<forall>k. cells (worldmap R) k \<le> cells (worldmap R') k))"
proof (induction fs arbitrary: R)
  case Nil
  show ?case by simp
next
  case (Cons f fs)
  show ?case
  proof (intro conjI impI allI)
    assume n: "0 < wsize (worldmap R)"
    then obtain R1 where s: "perception_step cv (receive f R) = Inr R1"
      using perception_step_returns [of "receive f R" cv] by (auto simp: worldmap_receive)
    with perception_step_mono [OF s] n have "0 < wsize (worldmap R1)"
      by (simp add: worldmap_receive)
    with Cons.IH [of R1] s show "\<exists>R'. run cv R (f # fs) = Inr R'" by simp
  next
    fix R' k
    assume r: "run cv R (f # fs) = Inr R'"
    then obtain R1 where s: "perception_step cv (receive f R) = Inr R1"
      and t: "run cv R1 fs = Inr R'"
      by (auto split: sum.splits)
    from perception_step_mono [OF s, of k]
    have a: "wsize (worldmap R1) = wsize (worldmap R)" "cells (worldmap R) k \<le> cells (worldmap R1) k"
      by (simp_all add: worldmap_receive)
    from Cons.IH [of R1] t
    have "wsize (worldmap R') = wsize (worldmap R1) \<and> (\<forall>k. cells (worldmap R1) k \<le> cells (worldmap R') k)"
      by blast
    then have b: "wsize (worldmap R') = wsize (worldmap R1)" "cells (worldmap R1) k \<le> cells (worldmap R') k"
      by blast+
    from a b show "wsize (worldmap R') = wsize (worldmap R)" by simp
    from a b show "cells (worldmap R) k \<le> cells (worldmap R') k" by simp
  qed
qed

theorem worldmap_monotone_witness:
  "0 < wsize (worldmap test_rover)
   \<and> \<not> isl (run cv_id test_rover [test_frame, test_frame])
   \<and> cells (worldmap test_rover) (0, 0, 2) = 0
   \<and> cells (worldmap (projr (run cv_id test_rover [test_frame, test_frame]))) (0, 0, 2) = 510
   \<and> cells (worldmap test_rover) (0, 0, 2)
        \<le> cells (worldmap (projr (run cv_id test_rover [test_frame, test_frame]))) (0, 0, 2)"
proof -
  have n: "0 < wsize (worldmap test_rover)"
    by (simp add: test_rover_def empty_map_def)
  have z: "cells (worldmap test_rover) (0, 0, 2) = 0"
    by (simp add: test_rover_def empty_map_def)
  have f: "receive test_frame R =
             R\<lparr>img := [[(255, 255, 255), (255, 255, 255)]], pos := (0, 0), yaw := 0,
               roll := 1, pitch := 1\<rparr>" for R
    by (simp add: receive_def test_frame_def)
  have v: "cells (worldmap (projr (run cv_id test_rover [test_frame, test_frame]))) (0, 0, 2) = 510"
    by (simp add: perception_step_unfold accumulate_cells stability_gate_def f test_rover_def
          empty_map_def eval_defs)
  from worldmap_monotone [of test_rover cv_id "[test_frame, test_frame]"] n
  obtain R' where r: "run cv_id test_rover [test_frame, test_frame] = Inr R'"
    by blast
  with worldmap_monotone [of test_rover cv_id "[test_frame, test_frame]"]
  have "cells (worldmap test_rover) (0, 0, 2) \<le> cells (worldmap R') (0, 0, 2)"
    by blast
  with n r z v show ?thesis by simp
qed

subsection \<open>World projection\<close>

lemma pix_to_world_nth:
  assumes "length xs = length ys" and "i < length xs"
  shows "fst (pix_to_world xs ys px py ang ws sc) ! i =
           np_clip (np_int ((xs ! i * cos (ang * pi / 180) - ys ! i * sin (ang * pi / 180)) / sc + px)) 0 (ws - 1)"
    and "snd (pix_to_world xs ys px py ang ws sc) ! i =
           np_clip (np_int ((xs ! i * sin (ang * pi / 180) + ys ! i * cos (ang * pi / 180)) / sc + py)) 0 (ws - 1)"
  using assms
  by (simp_all add: pix_to_world_def rotate_pix_def translate_pix_def Let_def)

text \<open>
  Claim C2, as amended. For every rover-centric point and pose, with a scale that is not
  zero and projected values \<open>x'/scale + pos.x\<close> and \<open>y'/scale + pos.y\<close> below
  \<open>2^63\<close> in magnitude, the world projection drops the fraction of each value (the
  result is the integer that is no larger in magnitude than the value and less than 1
  away from it), and only then clips both to \<open>[0, world_size - 1]\<close>.
\<close>

theorem pix_to_world_truncates_then_clips:
  assumes "length xs = length ys" and "i < length xs" and "sc \<noteq> 0"
    and "\<bar>(xs ! i * cos (ang * pi / 180) - ys ! i * sin (ang * pi / 180)) / sc + px\<bar> < 2 ^ 63"
    and "\<bar>(xs ! i * sin (ang * pi / 180) + ys ! i * cos (ang * pi / 180)) / sc + py\<bar> < 2 ^ 63"
  shows "\<exists>tx ty.
           \<bar>real_of_int tx\<bar> \<le> \<bar>(xs ! i * cos (ang * pi / 180) - ys ! i * sin (ang * pi / 180)) / sc + px\<bar>
         \<and> \<bar>(xs ! i * cos (ang * pi / 180) - ys ! i * sin (ang * pi / 180)) / sc + px - real_of_int tx\<bar> < 1
         \<and> \<bar>real_of_int ty\<bar> \<le> \<bar>(xs ! i * sin (ang * pi / 180) + ys ! i * cos (ang * pi / 180)) / sc + py\<bar>
         \<and> \<bar>(xs ! i * sin (ang * pi / 180) + ys ! i * cos (ang * pi / 180)) / sc + py - real_of_int ty\<bar> < 1
         \<and> fst (pix_to_world xs ys px py ang ws sc) ! i = min (ws - 1) (max tx 0)
         \<and> snd (pix_to_world xs ys px py ang ws sc) ! i = min (ws - 1) (max ty 0)"
proof -
  let ?vx = "(xs ! i * cos (ang * pi / 180) - ys ! i * sin (ang * pi / 180)) / sc + px"
  let ?vy = "(xs ! i * sin (ang * pi / 180) + ys ! i * cos (ang * pi / 180)) / sc + py"
  show ?thesis
    using np_int_trunc [OF assms(4)] np_int_trunc [OF assms(5)]
      pix_to_world_nth [OF assms(1,2), of px py ang ws sc]
    by (intro exI [of _ "np_int ?vx"] exI [of _ "np_int ?vy"]) (simp add: np_clip_def)
qed

theorem pix_to_world_truncates_then_clips_witness:
  "length [20 :: real] = length [0 :: real] \<and> (0::nat) < length [20 :: real] \<and> (30::real) \<noteq> 0
   \<and> \<bar>([20] ! 0 * cos (0 * pi / 180) - [0] ! 0 * sin (0 * pi / 180)) / 30 + 0 :: real\<bar> < 2 ^ 63
   \<and> \<bar>([20] ! 0 * sin (0 * pi / 180) + [0] ! 0 * cos (0 * pi / 180)) / 30 + 0 :: real\<bar> < 2 ^ 63
   \<and> fst (pix_to_world [20] [0] 0 0 0 200 30) ! 0 = 0
   \<and> snd (pix_to_world [20] [0] 0 0 0 200 30) ! 0 = 0"
proof -
  from pix_to_world_truncates_then_clips [of "[20]" "[0]" 0 30 0 0 0 200]
  obtain tx ty where
    t: "\<bar>real_of_int tx\<bar> \<le> 2 / 3" "\<bar>real_of_int ty\<bar> \<le> 0"
    and r: "fst (pix_to_world [20] [0] 0 0 0 200 30) ! 0 = min (200 - 1) (max tx 0)"
           "snd (pix_to_world [20] [0] 0 0 0 200 30) ! 0 = min (200 - 1) (max ty 0)"
    by auto
  from t have "tx = 0" "ty = 0" by linarith+
  with r show ?thesis by simp
qed

text \<open>
  The claim as stated fails: the point 20 units ahead of a rover at the origin projects
  to \<open>20/30\<close>, which rounds to 1, and the code returns 0.
\<close>

theorem rounding_counterexample:
  "pix_to_world [20] [0] 0 0 0 200 30 = ([0], [0])
   \<and> pix_to_world_rounding [20] [0] 0 0 0 200 30 = ([1], [0])
   \<and> round ((20 * cos (0 * pi / 180) - 0 * sin (0 * pi / 180)) / 30 + 0 :: real) = 1
   \<and> fst (pix_to_world [20] [0] 0 0 0 200 30) ! 0 \<noteq>
       np_clip (round ((20 * cos (0 * pi / 180) - 0 * sin (0 * pi / 180)) / 30 + 0 :: real)) 0 (200 - 1)"
  by (simp add: pix_to_world_def pix_to_world_rounding_def rotate_pix_def translate_pix_def
        np_int_in_range np_clip_def round_def Let_def)

text \<open>
  Claim C5, as amended. For a world map of positive size, any rover-centric coordinates
  (one y for each x) and any pose, \<open>pix_to_world\<close> returns one world point per input
  point, none dropped, each coordinate within \<open>[0, world_size - 1]\<close>; and a projected
  value below \<open>2^63\<close> in magnitude is pinned to the nearest edge: below 0 it becomes
  0, at \<open>world_size\<close> or above it becomes \<open>world_size - 1\<close>, and in between it is
  its integer part.
\<close>

theorem pix_to_world_in_range:
  assumes "0 < ws" and "length xs = length ys" and "sc \<noteq> 0"
  shows "length (fst (pix_to_world xs ys px py ang ws sc)) = length xs
       \<and> length (snd (pix_to_world xs ys px py ang ws sc)) = length ys
       \<and> (\<forall>i < length xs.
            0 \<le> fst (pix_to_world xs ys px py ang ws sc) ! i
          \<and> fst (pix_to_world xs ys px py ang ws sc) ! i \<le> ws - 1
          \<and> 0 \<le> snd (pix_to_world xs ys px py ang ws sc) ! i
          \<and> snd (pix_to_world xs ys px py ang ws sc) ! i \<le> ws - 1
          \<and> (\<bar>(xs ! i * cos (ang * pi / 180) - ys ! i * sin (ang * pi / 180)) / sc + px\<bar> < 2 ^ 63 \<longrightarrow>
               fst (pix_to_world xs ys px py ang ws sc) ! i =
                 (if (xs ! i * cos (ang * pi / 180) - ys ! i * sin (ang * pi / 180)) / sc + px < 0 then 0
                  else if real_of_int ws
                            \<le> (xs ! i * cos (ang * pi / 180) - ys ! i * sin (ang * pi / 180)) / sc + px
                  then ws - 1
                  else \<lfloor>(xs ! i * cos (ang * pi / 180) - ys ! i * sin (ang * pi / 180)) / sc + px\<rfloor>))
          \<and> (\<bar>(xs ! i * sin (ang * pi / 180) + ys ! i * cos (ang * pi / 180)) / sc + py\<bar> < 2 ^ 63 \<longrightarrow>
               snd (pix_to_world xs ys px py ang ws sc) ! i =
                 (if (xs ! i * sin (ang * pi / 180) + ys ! i * cos (ang * pi / 180)) / sc + py < 0 then 0
                  else if real_of_int ws
                            \<le> (xs ! i * sin (ang * pi / 180) + ys ! i * cos (ang * pi / 180)) / sc + py
                  then ws - 1
                  else \<lfloor>(xs ! i * sin (ang * pi / 180) + ys ! i * cos (ang * pi / 180)) / sc + py\<rfloor>)))"
proof (intro conjI allI impI)
  show "length (fst (pix_to_world xs ys px py ang ws sc)) = length xs"
    "length (snd (pix_to_world xs ys px py ang ws sc)) = length ys"
    using assms(2) by (simp_all add: length_pix_to_world)
next
  fix i assume i: "i < length xs"
  note n = pix_to_world_nth [OF assms(2) i, of px py ang ws sc]
  show "0 \<le> fst (pix_to_world xs ys px py ang ws sc) ! i"
    "fst (pix_to_world xs ys px py ang ws sc) ! i \<le> ws - 1"
    "0 \<le> snd (pix_to_world xs ys px py ang ws sc) ! i"
    "snd (pix_to_world xs ys px py ang ws sc) ! i \<le> ws - 1"
    using assms(1) unfolding n by (simp_all add: np_clip_def)
  {
    assume "\<bar>(xs ! i * cos (ang * pi / 180) - ys ! i * sin (ang * pi / 180)) / sc + px\<bar> < 2 ^ 63"
    then show "fst (pix_to_world xs ys px py ang ws sc) ! i =
                 (if (xs ! i * cos (ang * pi / 180) - ys ! i * sin (ang * pi / 180)) / sc + px < 0 then 0
                  else if real_of_int ws
                            \<le> (xs ! i * cos (ang * pi / 180) - ys ! i * sin (ang * pi / 180)) / sc + px
                  then ws - 1
                  else \<lfloor>(xs ! i * cos (ang * pi / 180) - ys ! i * sin (ang * pi / 180)) / sc + px\<rfloor>)"
      unfolding n by (rule clip_nearest_edge [OF _ assms(1)])
  }
  {
    assume "\<bar>(xs ! i * sin (ang * pi / 180) + ys ! i * cos (ang * pi / 180)) / sc + py\<bar> < 2 ^ 63"
    then show "snd (pix_to_world xs ys px py ang ws sc) ! i =
                 (if (xs ! i * sin (ang * pi / 180) + ys ! i * cos (ang * pi / 180)) / sc + py < 0 then 0
                  else if real_of_int ws
                            \<le> (xs ! i * sin (ang * pi / 180) + ys ! i * cos (ang * pi / 180)) / sc + py
                  then ws - 1
                  else \<lfloor>(xs ! i * sin (ang * pi / 180) + ys ! i * cos (ang * pi / 180)) / sc + py\<rfloor>)"
      unfolding n by (rule clip_nearest_edge [OF _ assms(1)])
  }
qed

theorem pix_to_world_in_range_witness:
  "(0::int) < 200 \<and> length [- 100, 10000 :: real] = length [5, - 5 :: real] \<and> (30::real) \<noteq> 0
   \<and> fst (pix_to_world [- 100, 10000] [5, - 5] 0 0 0 200 30) ! 0 = 0
   \<and> fst (pix_to_world [- 100, 10000] [5, - 5] 0 0 0 200 30) ! 1 = 199
   \<and> snd (pix_to_world [- 100, 10000] [5, - 5] 0 0 0 200 30) ! 1 = 0
   \<and> length (fst (pix_to_world [- 100, 10000] [5, - 5] 0 0 0 200 30)) = 2"
proof -
  have h: "(0::int) < 200" "length [- 100, 10000 :: real] = length [5, - 5 :: real]" "(30::real) \<noteq> 0"
    by simp_all
  note t = pix_to_world_in_range [OF h, of 0 0 0]
  from t have l: "length (fst (pix_to_world [- 100, 10000] [5, - 5] 0 0 0 200 30)) = 2"
    by simp
  from t have a: "\<forall>i < length [- 100, 10000 :: real].
      (\<bar>([- 100, 10000] ! i * cos (0 * pi / 180) - [5, - 5] ! i * sin (0 * pi / 180)) / 30 + 0 :: real\<bar> < 2 ^ 63 \<longrightarrow>
         fst (pix_to_world [- 100, 10000] [5, - 5] 0 0 0 200 30) ! i =
           (if ([- 100, 10000] ! i * cos (0 * pi / 180) - [5, - 5] ! i * sin (0 * pi / 180)) / 30 + 0 < (0::real) then 0
            else if real_of_int 200
                      \<le> ([- 100, 10000] ! i * cos (0 * pi / 180) - [5, - 5] ! i * sin (0 * pi / 180)) / 30 + 0
            then 200 - 1
            else \<lfloor>([- 100, 10000] ! i * cos (0 * pi / 180) - [5, - 5] ! i * sin (0 * pi / 180)) / 30 + 0 :: real\<rfloor>))
    \<and> (\<bar>([- 100, 10000] ! i * sin (0 * pi / 180) + [5, - 5] ! i * cos (0 * pi / 180)) / 30 + 0 :: real\<bar> < 2 ^ 63 \<longrightarrow>
         snd (pix_to_world [- 100, 10000] [5, - 5] 0 0 0 200 30) ! i =
           (if ([- 100, 10000] ! i * sin (0 * pi / 180) + [5, - 5] ! i * cos (0 * pi / 180)) / 30 + 0 < (0::real) then 0
            else if real_of_int 200
                      \<le> ([- 100, 10000] ! i * sin (0 * pi / 180) + [5, - 5] ! i * cos (0 * pi / 180)) / 30 + 0
            then 200 - 1
            else \<lfloor>([- 100, 10000] ! i * sin (0 * pi / 180) + [5, - 5] ! i * cos (0 * pi / 180)) / 30 + 0 :: real\<rfloor>))"
    by blast
  from a [rule_format, of 0] have x0: "fst (pix_to_world [- 100, 10000] [5, - 5] 0 0 0 200 30) ! 0 = 0"
    by simp
  from a [rule_format, of 1] have x1: "fst (pix_to_world [- 100, 10000] [5, - 5] 0 0 0 200 30) ! 1 = 199"
    and y1: "snd (pix_to_world [- 100, 10000] [5, - 5] 0 0 0 200 30) ! 1 = 0"
    by simp_all
  from h l x0 x1 y1 show ?thesis by simp
qed

text \<open>
  The claim as stated fails: for a rover at \<open>x = 10^20\<close> the projected value is far
  above the map, its conversion to a 64-bit integer gives the smallest 64-bit integer,
  and the clip pins the point to the far edge 0, not to the nearest edge 199.
\<close>

theorem nearest_edge_counterexample:
  "real_of_int (200 - 1) < ([0] ! 0 * cos (0 * pi / 180) - [0] ! 0 * sin (0 * pi / 180)) / 30 + 10 ^ 20
   \<and> fst (pix_to_world [0] [0] (10 ^ 20) 0 0 200 30) ! 0 = 0
   \<and> fst (pix_to_world [0] [0] (10 ^ 20) 0 0 200 30) ! 0 \<noteq> 200 - 1"
  by (simp add: pix_to_world_def rotate_pix_def translate_pix_def np_int_def np_clip_def Let_def)

lemma rover_coords_x_nth:
  assumes "i < length (fst (rover_coords m))"
  shows "\<exists>r < length m. fst (rover_coords m) ! i = real (length m - r)"
  using rover_coords_x [of "fst (rover_coords m) ! i" m] assms by simp

lemma rover_coords_y_nth:
  assumes "i < length (snd (rover_coords m))"
  shows "snd (rover_coords m) ! i \<le> real (shape1 m) / 2"
  using assms by (simp add: rover_coords_def Let_def case_prod_beta)

text \<open>
  Claim C6, as amended. For every binary mask (an array: each dimension below
  \<open>2^63\<close>) and a world map of positive size, \<open>pix_to_world\<close> with yaw 0, position
  (0, 0) and scale 1 returns one world point per rover-centric point of
  \<open>rover_coords\<close>; a point's x is reproduced exactly when it is at most
  \<open>world_size - 1\<close>, and its y when it is an integer within \<open>[0, world_size - 1]\<close>.
\<close>

theorem round_trip_where_exact:
  assumes "i < length (fst (rover_coords m))" and "0 < ws"
    and "shape0 m < 2 ^ 63" and "shape1 m < 2 ^ 63"
  shows "length (fst (pix_to_world (fst (rover_coords m)) (snd (rover_coords m)) 0 0 0 ws 1))
           = length (fst (rover_coords m))
       \<and> length (snd (pix_to_world (fst (rover_coords m)) (snd (rover_coords m)) 0 0 0 ws 1))
           = length (snd (rover_coords m))
       \<and> (fst (rover_coords m) ! i \<le> real_of_int (ws - 1) \<longrightarrow>
            real_of_int (fst (pix_to_world (fst (rover_coords m)) (snd (rover_coords m)) 0 0 0 ws 1) ! i)
              = fst (rover_coords m) ! i)
       \<and> (snd (rover_coords m) ! i \<in> \<int> \<and> 0 \<le> snd (rover_coords m) ! i
            \<and> snd (rover_coords m) ! i \<le> real_of_int (ws - 1) \<longrightarrow>
            real_of_int (snd (pix_to_world (fst (rover_coords m)) (snd (rover_coords m)) 0 0 0 ws 1) ! i)
              = snd (rover_coords m) ! i)"
proof -
  let ?xs = "fst (rover_coords m)" and ?ys = "snd (rover_coords m)"
  have len: "length ?xs = length ?ys" by (rule length_rover_coords)
  from rover_coords_x_nth [OF assms(1)] obtain r where
    r: "r < length m" "?xs ! i = real (length m - r)" by blast
  from assms(3) have "int (length m - r) < 2 ^ 63"
    by (simp add: shape0_def)
  moreover have "- (2 ^ 63) < int (length m - r)"
    by (rule less_le_trans [of _ 0]) simp_all
  ultimately have cx: "np_int (real_of_int (int (length m - r))) = int (length m - r)"
    by (rule np_int_of_int [rotated])
  have x: "fst (pix_to_world ?xs ?ys 0 0 0 ws 1) ! i = np_clip (int (length m - r)) 0 (ws - 1)"
    using pix_to_world_nth(1) [OF len assms(1), of 0 0 0 ws 1] r cx
    by simp
  have y: "snd (pix_to_world ?xs ?ys 0 0 0 ws 1) ! i = np_clip (np_int (?ys ! i)) 0 (ws - 1)"
    using pix_to_world_nth(2) [OF len assms(1), of 0 0 0 ws 1] by simp
  have xc: "?xs ! i \<le> real_of_int (ws - 1) \<Longrightarrow>
            real_of_int (fst (pix_to_world ?xs ?ys 0 0 0 ws 1) ! i) = ?xs ! i"
    unfolding x r(2) np_clip_def by (simp add: min_def max_def) linarith
  have yc: "real_of_int (snd (pix_to_world ?xs ?ys 0 0 0 ws 1) ! i) = ?ys ! i"
    if h: "?ys ! i \<in> \<int>" "0 \<le> ?ys ! i" "?ys ! i \<le> real_of_int (ws - 1)"
  proof -
    from h(1) obtain k where k: "?ys ! i = real_of_int k" by (auto elim: Ints_cases)
    with h have k0: "0 \<le> k" "k \<le> ws - 1" by simp_all
    from rover_coords_y_nth [of i m] assms(1) len k
    have "real_of_int k \<le> real (shape1 m) / 2" by simp
    also from assms(4) have "\<dots> < real_of_int (2 ^ 63)"
      by (simp add: less_imp_of_nat_less [where 'a = real, of "shape1 m" "2 ^ 63", simplified])
    finally have "k < 2 ^ 63" by (simp only: of_int_less_iff)
    moreover from k0 have "- (2 ^ 63) < k" by (rule_tac less_le_trans [of _ 0]) simp_all
    ultimately have "np_int (real_of_int k) = k" by (rule np_int_of_int [rotated])
    with k0 show ?thesis unfolding y k by (simp add: np_clip_def)
  qed
  from len xc yc show ?thesis by (simp add: length_pix_to_world)
qed

theorem round_trip_where_exact_witness:
  "0 < length (fst (rover_coords [[1, 0]])) \<and> (0::int) < 200
   \<and> shape0 [[1, 0 :: nat]] < 2 ^ 63 \<and> shape1 [[1, 0 :: nat]] < 2 ^ 63
   \<and> rover_coords [[1, 0]] = ([1], [1])
   \<and> real_of_int (fst (pix_to_world (fst (rover_coords [[1, 0]])) (snd (rover_coords [[1, 0]]))
                         0 0 0 200 1) ! 0) = fst (rover_coords [[1, 0]]) ! 0
   \<and> real_of_int (snd (pix_to_world (fst (rover_coords [[1, 0]])) (snd (rover_coords [[1, 0]]))
                         0 0 0 200 1) ! 0) = snd (rover_coords [[1, 0]]) ! 0"
proof -
  have rc: "rover_coords [[1, 0]] = ([1], [1])"
    by (simp add: rover_coords_def nonzero_def upt_conv_Cons shape0_def shape1_def)
  have i: "0 < length (fst (rover_coords [[1, 0]]))" unfolding rc by simp
  have d: "shape0 [[1, 0 :: nat]] < 2 ^ 63" "shape1 [[1, 0 :: nat]] < 2 ^ 63"
    by (simp_all add: shape0_def shape1_def)
  from round_trip_where_exact [OF i _ d, of 200] i d show ?thesis unfolding rc by simp
qed

text \<open>
  The claim as stated fails: the pixel in the last column of a frame one row high and
  four columns wide has the rover-centric y coordinate -1, and its world y is 0.
\<close>

theorem round_trip_counterexample:
  "rover_coords [[0, 0, 0, 1]] = ([1], [- 1])
   \<and> pix_to_world (fst (rover_coords [[0, 0, 0, 1]])) (snd (rover_coords [[0, 0, 0, 1]])) 0 0 0 200 1
       = ([1], [0])
   \<and> map real_of_int
        (snd (pix_to_world (fst (rover_coords [[0, 0, 0, 1]])) (snd (rover_coords [[0, 0, 0, 1]]))
               0 0 0 200 1))
       \<noteq> snd (rover_coords [[0, 0, 0, 1]])"
  by (simp add: rover_coords_def nonzero_def upt_conv_Cons shape0_def shape1_def
        pix_to_world_def rotate_pix_def translate_pix_def np_int_in_range np_clip_def Let_def)

subsection \<open>Polar cues\<close>

lemma arctan2_bounds: "- pi < arctan2 y x \<and> arctan2 y x \<le> pi"
proof -
  have a: "- (pi / 2) < arctan (y / x)" "arctan (y / x) < pi / 2"
    by (rule arctan_lbound, rule arctan_ubound)
  have "x < 0 \<Longrightarrow> 0 \<le> y \<Longrightarrow> arctan (y / x) \<le> 0"
    by (simp add: divide_nonneg_neg arctan_le_zero_iff)
  moreover have "x < 0 \<Longrightarrow> y < 0 \<Longrightarrow> 0 < arctan (y / x)"
    by (simp add: divide_neg_neg arctan_less_zero_iff zero_less_arctan_iff)
  ultimately show ?thesis
    using a pi_gt_zero unfolding arctan2_def by (auto; linarith)
qed

lemma arctan2_forward: "0 < x \<Longrightarrow> - (pi / 2) < arctan2 y x \<and> arctan2 y x < pi / 2"
  using arctan_lbound [of "y / x"] arctan_ubound [of "y / x"] by (simp add: arctan2_def)

lemma sqrt_one_plus_ratio:
  assumes "x \<noteq> 0"
  shows "sqrt (1 + (y / x)\<^sup>2) = sqrt (x\<^sup>2 + y\<^sup>2) / \<bar>x\<bar>"
proof -
  have "1 + (y / x)\<^sup>2 = (x\<^sup>2 + y\<^sup>2) / x\<^sup>2"
    using assms by (simp add: power_divide add_divide_distrib)
  then show ?thesis by (simp add: real_sqrt_divide)
qed

lemma cos_sin_arctan2:
  assumes "x \<noteq> 0 \<or> y \<noteq> 0"
  shows "cos (arctan2 y x) = x / sqrt (x\<^sup>2 + y\<^sup>2)"
    and "sin (arctan2 y x) = y / sqrt (x\<^sup>2 + y\<^sup>2)"
proof -
  have r: "0 < sqrt (x\<^sup>2 + y\<^sup>2)"
    using assms by (auto simp: sum_power2_gt_zero_iff)
  consider (pos) "0 < x" | (neg) "x < 0" | (zero) "x = 0" "y \<noteq> 0"
    using assms by fastforce
  then have "cos (arctan2 y x) = x / sqrt (x\<^sup>2 + y\<^sup>2) \<and> sin (arctan2 y x) = y / sqrt (x\<^sup>2 + y\<^sup>2)"
  proof cases
    case pos
    then show ?thesis
      using r by (simp add: arctan2_def cos_arctan sin_arctan sqrt_one_plus_ratio)
  next
    case neg
    then show ?thesis
      using r by (simp add: arctan2_def cos_arctan sin_arctan sqrt_one_plus_ratio cos_diff sin_diff cos_add sin_add)
  next
    case zero
    then show ?thesis
      by (cases "0 < y") (simp_all add: arctan2_def)
  qed
  then show "cos (arctan2 y x) = x / sqrt (x\<^sup>2 + y\<^sup>2)"
    and "sin (arctan2 y x) = y / sqrt (x\<^sup>2 + y\<^sup>2)" by simp_all
qed

lemma arctan2_eq_Arg: "arctan2 y x = Arg (Complex x y)"
proof (cases "x = 0 \<and> y = 0")
  case True
  then show ?thesis by (simp add: arctan2_def Arg_zero flip: zero_complex.code)
next
  case False
  then have nz: "x \<noteq> 0 \<or> y \<noteq> 0" by simp
  have "sgn (Complex x y) = cis (arctan2 y x)"
    by (simp add: complex_eq_iff sgn_eq cos_sin_arctan2 [OF nz] cmod_def)
  then show ?thesis
    using arctan2_bounds [of y x] by (simp add: cis_Arg_unique)
qed

text \<open>
  Claim C7. For all coordinate pairs, \<open>to_polar_coords\<close> returns the distance
  \<open>sqrt(x^2 + y^2)\<close>, which is not negative, and the angle \<open>arctan2(y, x)\<close>, which is
  the principal argument of the point and lies in the interval from \<open>-pi\<close>
  (excluded) to \<open>pi\<close> (included).
\<close>

theorem polar_coords_range:
  assumes "length xs = length ys" and "i < length xs"
  shows "length (fst (to_polar_coords xs ys)) = length xs
       \<and> length (snd (to_polar_coords xs ys)) = length xs
       \<and> fst (to_polar_coords xs ys) ! i = sqrt ((xs ! i)\<^sup>2 + (ys ! i)\<^sup>2)
       \<and> 0 \<le> fst (to_polar_coords xs ys) ! i
       \<and> snd (to_polar_coords xs ys) ! i = arctan2 (ys ! i) (xs ! i)
       \<and> snd (to_polar_coords xs ys) ! i = Arg (Complex (xs ! i) (ys ! i))
       \<and> - pi < snd (to_polar_coords xs ys) ! i
       \<and> snd (to_polar_coords xs ys) ! i \<le> pi"
  using assms arctan2_bounds [of "ys ! i" "xs ! i"] arctan2_eq_Arg [of "ys ! i" "xs ! i"]
  by (simp add: to_polar_coords_def Let_def)

theorem polar_coords_range_witness:
  "length [- 1, 3 :: real] = length [0, 4 :: real] \<and> (0::nat) < length [- 1, 3 :: real]
   \<and> fst (to_polar_coords [- 1, 3] [0, 4]) ! 0 = 1
   \<and> snd (to_polar_coords [- 1, 3] [0, 4]) ! 0 = pi
   \<and> - pi < snd (to_polar_coords [- 1, 3] [0, 4]) ! 0
   \<and> snd (to_polar_coords [- 1, 3] [0, 4]) ! 0 \<le> pi"
  using polar_coords_range [of "[- 1, 3]" "[0, 4]" 0]
  by (simp add: arctan2_def)

lemma polar_cues_forward:
  assumes "a \<in> set (snd (polar_cues m))"
  shows "- (pi / 2) < a \<and> a < pi / 2"
proof -
  from assms obtain x y where xy: "(x, y) \<in> set (zip (fst (rover_coords m)) (snd (rover_coords m)))"
    and a: "a = arctan2 y x"
    by (auto simp: polar_cues_def to_polar_coords_def Let_def)
  from xy have "x \<in> set (fst (rover_coords m))" by (rule set_zip_leftD)
  with rover_coords_x [of x m] have "0 < x" by auto
  with a arctan2_forward [of x y] show ?thesis by simp
qed

text \<open>
  Claim C10. Every x coordinate that \<open>rover_coords\<close> returns for a mask of height H is
  positive, between 1 and H; and every angle of \<open>nav_angles\<close> and \<open>rocks_angles\<close> that
  \<open>perception_step\<close> stores lies strictly between \<open>-pi/2\<close> and \<open>pi/2\<close>.
\<close>

theorem cues_point_forward:
  "(\<forall>x \<in> set (fst (rover_coords m)). 0 < x \<and> 1 \<le> x \<and> x \<le> real (shape0 m))
   \<and> (\<forall>R'. perception_step cv R = Inr R' \<longrightarrow>
         (\<forall>a \<in> set (nav_angles R') \<union> set (rocks_angles R'). - (pi / 2) < a \<and> a < pi / 2))"
proof (intro conjI ballI allI impI)
  fix x assume "x \<in> set (fst (rover_coords m))"
  with rover_coords_x [of x m] obtain r where r: "r < length m" "x = real (length m - r)"
    by blast
  then show "0 < x" "1 \<le> x" "x \<le> real (shape0 m)"
    by (simp_all add: shape0_def)
next
  fix R' a
  assume s: "perception_step cv R = Inr R'"
    and a: "a \<in> set (nav_angles R') \<union> set (rocks_angles R')"
  from s have "nav_angles R' = snd (polar_cues (terrain_mask cv R))"
    "rocks_angles R' = snd (polar_cues (rock_mask cv R))"
    by (auto simp: perception_step_unfold split: sum.splits)
  with a have "a \<in> set (snd (polar_cues (terrain_mask cv R))) \<or> a \<in> set (snd (polar_cues (rock_mask cv R)))"
    by auto
  then have b: "- (pi / 2) < a \<and> a < pi / 2"
    using polar_cues_forward by blast
  from b show "- (pi / 2) < a" ..
  from b show "a < pi / 2" ..
qed

theorem cues_point_forward_witness:
  "\<not> isl (perception_step cv_id test_rover)
   \<and> fst (rover_coords (terrain_mask cv_id test_rover)) = [1, 1]
   \<and> nav_angles (projr (perception_step cv_id test_rover)) = [pi / 4, 0]
   \<and> list_all (\<lambda>a. - (pi / 2) < a \<and> a < pi / 2)
        (nav_angles (projr (perception_step cv_id test_rover)))"
proof -
  have e: "perception_step cv_id test_rover = Inr (projr (perception_step cv_id test_rover))"
    by (simp add: perception_step_unfold accumulate_cells stability_gate_def test_rover_def empty_map_def)
  have x: "fst (rover_coords (terrain_mask cv_id test_rover)) = [1, 1]"
    by (simp add: eval_defs)
  have n: "nav_angles (projr (perception_step cv_id test_rover)) = [pi / 4, 0]"
    by (simp add: perception_step_def perspect_transform_def iadd_at_def index_ok_def
          wrap_index_def to_polar_coords_def arctan2_def arctan_one eval_defs)
  from cues_point_forward [of "terrain_mask cv_id test_rover" cv_id test_rover] e
  have "\<forall>a \<in> set (nav_angles (projr (perception_step cv_id test_rover))).
          - (pi / 2) < a \<and> a < pi / 2"
    by blast
  then have "list_all (\<lambda>a. - (pi / 2) < a \<and> a < pi / 2)
               (nav_angles (projr (perception_step cv_id test_rover)))"
    by (simp only: list_all_iff)
  with e x n show ?thesis by (metis sum.disc(2))
qed

subsection \<open>Classifiers\<close>

text \<open>
  Claim C8. At every pixel of every frame, the terrain classifier's mask is 1 exactly
  when each channel is strictly above its threshold (and 0 otherwise), the obstacle
  classifier's mask is 1 exactly when each channel is strictly below its threshold
  (and 0 otherwise), and with a common threshold no pixel is active in both masks.
\<close>

theorem classifiers_strict_and_disjoint:
  assumes "r < length im" and "c < length (im ! r)"
  shows "(color_thresh im t ! r ! c = 1 \<longleftrightarrow>
            (case im ! r ! c of (R, G, B) \<Rightarrow> R > fst t \<and> G > fst (snd t) \<and> B > snd (snd t)))
       \<and> (color_thresh im t ! r ! c \<noteq> 1 \<longrightarrow> color_thresh im t ! r ! c = 0)
       \<and> (obstacle_thresh im t ! r ! c = 1 \<longleftrightarrow>
            (case im ! r ! c of (R, G, B) \<Rightarrow> R < fst t \<and> G < fst (snd t) \<and> B < snd (snd t)))
       \<and> (obstacle_thresh im t ! r ! c \<noteq> 1 \<longrightarrow> obstacle_thresh im t ! r ! c = 0)
       \<and> \<not> (color_thresh im t ! r ! c = 1 \<and> obstacle_thresh im t ! r ! c = 1)"
  using assms by (auto simp: color_thresh_nth obstacle_thresh_nth split: prod.splits)

theorem classifiers_strict_and_disjoint_witness:
  "(0::nat) < length [[(200, 200, 200), (10, 10, 10), (160, 160, 160) :: pixel]]
   \<and> (1::nat) < length ([[(200, 200, 200), (10, 10, 10), (160, 160, 160) :: pixel]] ! 0)
   \<and> color_thresh [[(200, 200, 200), (10, 10, 10), (160, 160, 160)]] default_rgb_thresh ! 0 ! 1 = 0
   \<and> obstacle_thresh [[(200, 200, 200), (10, 10, 10), (160, 160, 160)]] default_rgb_thresh ! 0 ! 1 = 1"
  using classifiers_strict_and_disjoint
          [of 0 "[[(200, 200, 200), (10, 10, 10), (160, 160, 160)]]" 1 default_rgb_thresh]
  by (simp add: default_rgb_thresh_def)

end
